theory Spec2Isabelle
  imports Main
begin

section \<open>Data model\<close>

text \<open>
  The forwarder keeps one session token in memory and in a file (package jwt), obtains it by
  a login exchange (mizito/auth.go) and sends messages with a bounded retry loop
  (mizito/message.go). Strings and file contents are byte lists; instants of time.Time are
  integers counting nanoseconds; Go's int is an unbounded integer here (the code only
  compares status numbers and counts three attempts).
\<close>

type_synonym bytes = string

text \<open>An error value coming out of a library or the operating system, by its message.\<close>

type_synonym liberr = string

text \<open>jwt.TokenData.\<close>

record TokenData =
  Token :: string
  LastLoginUID :: string
  ExpiresAt :: int
  UpdatedAt :: int

text \<open>The fields of config.Config that the three packages read.\<close>

record Config =
  MizitoLoginURL :: string
  MizitoChatAPIURL :: string
  MizitoUsername :: string
  MizitoPassword :: string
  MizitoLoginCode :: string
  MizitoRegID :: string
  JWTTokenFile :: string

text \<open>mizito.LoginRequest: the two interface fields are nil (None) or hold a string.\<close>

record LoginRequest =
  Username :: string
  Password :: string
  LoginCode :: "string option"
  RegID :: "string option"

text \<open>mizito.LoginResponse, mizito.ErrorResponse, mizito.MessageResponse.\<close>

record LoginResponse =
  lr_Status :: int
  lr_Token :: string
  lr_LastLoginUID :: string

record ErrorResponse =
  er_Status :: int
  er_Message :: string

record MessageResponse =
  mr_Status :: int
  mr_Message :: string

text \<open>
  An outgoing http.Request: its URL, its body and the x-token header (the other headers are
  constants of the code).
\<close>

record request =
  req_url :: string
  req_body :: bytes
  x_token :: "string option"

text \<open>
  What one client.Do followed by ioutil.ReadAll of the body gives: Do fails (no response),
  the response arrives with a status but its body cannot be read, or status and body.
\<close>

datatype http_outcome =
    DoErr liberr
  | ReadErr int liberr
  | Resp int bytes

text \<open>An error of a file-system call: the file does not exist, or anything else.\<close>

datatype os_error = ErrNotExist | OsError liberr

definition os_IsNotExist :: "os_error \<Rightarrow> bool" where
  "os_IsNotExist e = (e = ErrNotExist)"

text \<open>
  The errors the code builds, one constructor for each fmt.Errorf; a wrapped error (verb w)
  is an argument.
\<close>

datatype error =
    ReadTokenFileFailed os_error
  | ParseTokenDataFailed liberr
  | MarshalTokenDataFailed liberr
  | CreateTokenDirFailed os_error
  | WriteTokenFileFailed os_error
  | RemoveTokenFileFailed os_error
  | MarshalLoginRequestFailed liberr
  | CreateLoginRequestFailed liberr
  | LoginRequestFailed liberr
  | ReadLoginResponseFailed liberr
  | LoginHTTPStatus int
  | ParseLoginResponseFailed liberr
  | LoginFailedMessage int string
  | LoginFailedStatus int
  | SaveJWTTokenFailed error
  | EnsureValidTokenFailed error
  | NoJWTTokenAvailable
  | GetJWTTokenFailed error
  | MarshalMessageRequestFailed liberr
  | CreateMessageRequestFailed liberr
  | RefreshOnRetryFailed error
  | GetRefreshedTokenFailed error
  | MessageRequestFailed liberr
  | ReadMessageResponseFailed liberr
  | UnauthorizedAfterRetries int
  | SendHTTPStatus int bytes
  | ReceivedFalseResponse
  | SendFailedStatus int string
  | UnexpectedResponseFormat
  | FailedAfterAttempts int "error option"

text \<open>The calls that leave the process, newest first in the trace.\<close>

datatype event =
    EvReadFile
  | EvMkdirAll string
  | EvWriteFile bytes
  | EvRemove
  | EvLogin request http_outcome
  | EvSend request http_outcome

section \<open>Environment\<close>

text \<open>
  Everything the code takes from outside its own source: the configuration, the library
  functions it calls (encoding/json, net/http, path/filepath) and the answers of the clock,
  the file system and the two endpoints. The answer to the n-th call of a kind is a function
  of n, so an environment fixes one complete behaviour of the outside world and the theorems
  hold for all of them.

  \<open>message_json\<close> stands for lines 88 to 132 of SendMessage: the payload built from the
  text, the clock reading and a random number, marshalled.
  \<open>partial_write\<close> is what a failing ioutil.WriteFile leaves on disk, from the old content
  and the data.
\<close>

record env =
  config :: Config
  json_MarshalIndent :: "TokenData \<Rightarrow> liberr + bytes"
  json_Unmarshal_TokenData :: "bytes \<Rightarrow> liberr + TokenData"
  json_Marshal_LoginRequest :: "LoginRequest \<Rightarrow> liberr + bytes"
  json_Unmarshal_LoginResponse :: "bytes \<Rightarrow> liberr + LoginResponse"
  json_Unmarshal_ErrorResponse :: "bytes \<Rightarrow> liberr + ErrorResponse"
  json_Unmarshal_BoolResponse :: "bytes \<Rightarrow> liberr + bool"
  json_Unmarshal_MessageResponse :: "bytes \<Rightarrow> liberr + MessageResponse"
  http_NewRequest :: "string \<Rightarrow> liberr option"
  filepath_Dir :: "string \<Rightarrow> string"
  message_json :: "string \<Rightarrow> int \<Rightarrow> liberr + bytes"
  clock :: "nat \<Rightarrow> int"
  fs_fault :: "nat \<Rightarrow> liberr option"
  partial_write :: "nat \<Rightarrow> bytes option \<Rightarrow> bytes \<Rightarrow> bytes option"
  login_reply :: "nat \<Rightarrow> request \<Rightarrow> http_outcome"
  send_reply :: "nat \<Rightarrow> request \<Rightarrow> http_outcome"

text \<open>
  The state: Manager.tokenData (nil is None), the token file (None when it does not exist),
  how many calls of each kind were made, and the trace.
\<close>

record state =
  tokenData :: "TokenData option"
  tokenFile :: "bytes option"
  n_now :: nat
  n_fs :: nat
  n_login :: nat
  n_send :: nat
  trace :: "event list"

definition time_Now :: "env \<Rightarrow> state \<Rightarrow> int \<times> state" where
  "time_Now E s = (clock E (n_now s), s\<lparr>n_now := Suc (n_now s)\<rparr>)"

definition fs_call :: "event \<Rightarrow> state \<Rightarrow> state" where
  "fs_call ev s = s\<lparr>n_fs := Suc (n_fs s), trace := ev # trace s\<rparr>"

definition ioutil_ReadFile :: "env \<Rightarrow> state \<Rightarrow> (os_error + bytes) \<times> state" where
  "ioutil_ReadFile E s =
     (case fs_fault E (n_fs s) of
        Some e \<Rightarrow> (Inl (OsError e), fs_call EvReadFile s)
      | None \<Rightarrow>
          (case tokenFile s of
             None \<Rightarrow> (Inl ErrNotExist, fs_call EvReadFile s)
           | Some b \<Rightarrow> (Inr b, fs_call EvReadFile s)))"

definition os_MkdirAll :: "env \<Rightarrow> string \<Rightarrow> state \<Rightarrow> os_error option \<times> state" where
  "os_MkdirAll E dir s =
     (case fs_fault E (n_fs s) of
        Some e \<Rightarrow> (Some (OsError e), fs_call (EvMkdirAll dir) s)
      | None \<Rightarrow> (None, fs_call (EvMkdirAll dir) s))"

definition ioutil_WriteFile :: "env \<Rightarrow> bytes \<Rightarrow> state \<Rightarrow> os_error option \<times> state" where
  "ioutil_WriteFile E data s =
     (case fs_fault E (n_fs s) of
        Some e \<Rightarrow>
          (Some (OsError e),
           fs_call (EvWriteFile data) (s\<lparr>tokenFile := partial_write E (n_fs s) (tokenFile s) data\<rparr>))
      | None \<Rightarrow> (None, fs_call (EvWriteFile data) (s\<lparr>tokenFile := Some data\<rparr>)))"

definition os_Remove :: "env \<Rightarrow> state \<Rightarrow> os_error option \<times> state" where
  "os_Remove E s =
     (case fs_fault E (n_fs s) of
        Some e \<Rightarrow> (Some (OsError e), fs_call EvRemove s)
      | None \<Rightarrow>
          (case tokenFile s of
             None \<Rightarrow> (Some ErrNotExist, fs_call EvRemove s)
           | Some b \<Rightarrow> (None, fs_call EvRemove (s\<lparr>tokenFile := None\<rparr>))))"

definition client_Do_login :: "env \<Rightarrow> request \<Rightarrow> state \<Rightarrow> http_outcome \<times> state" where
  "client_Do_login E req s =
     (login_reply E (n_login s) req,
      s\<lparr>n_login := Suc (n_login s),
        trace := EvLogin req (login_reply E (n_login s) req) # trace s\<rparr>)"

definition client_Do_send :: "env \<Rightarrow> request \<Rightarrow> state \<Rightarrow> http_outcome \<times> state" where
  "client_Do_send E req s =
     (send_reply E (n_send s) req,
      s\<lparr>n_send := Suc (n_send s),
        trace := EvSend req (send_reply E (n_send s) req) # trace s\<rparr>)"

section \<open>Credential store (package jwt)\<close>

definition LoadToken :: "env \<Rightarrow> state \<Rightarrow> error option \<times> state" where
  "LoadToken E s =
     (case ioutil_ReadFile E s of
        (Inl err, s1) \<Rightarrow>
          (if os_IsNotExist err then (None, s1)
           else (Some (ReadTokenFileFailed err), s1))
      | (Inr content, s1) \<Rightarrow>
          (case json_Unmarshal_TokenData E content of
             Inl e \<Rightarrow> (Some (ParseTokenDataFailed e), s1)
           | Inr td \<Rightarrow> (None, s1\<lparr>tokenData := Some td\<rparr>)))"

text \<open>24 * time.Hour, in nanoseconds.\<close>

definition validity :: int where
  "validity = 24 * 3600 * 1000000000"

definition SaveToken :: "env \<Rightarrow> string \<Rightarrow> string \<Rightarrow> state \<Rightarrow> error option \<times> state" where
  "SaveToken E token lastLoginUID s =
     (case time_Now E s of (t1, s1) \<Rightarrow>
     (case time_Now E s1 of (t2, s2) \<Rightarrow>
      let td = \<lparr>Token = token, LastLoginUID = lastLoginUID,
                ExpiresAt = t1 + validity, UpdatedAt = t2\<rparr>
      in case json_MarshalIndent E td of
           Inl e \<Rightarrow> (Some (MarshalTokenDataFailed e), s2)
         | Inr content \<Rightarrow>
             (case (if filepath_Dir E (JWTTokenFile (config E)) \<noteq> ''.''
                    then os_MkdirAll E (filepath_Dir E (JWTTokenFile (config E))) s2
                    else (None, s2)) of
                (Some err, s3) \<Rightarrow> (Some (CreateTokenDirFailed err), s3)
              | (None, s3) \<Rightarrow>
                  (case ioutil_WriteFile E content s3 of
                     (Some err, s4) \<Rightarrow> (Some (WriteTokenFileFailed err), s4)
                   | (None, s4) \<Rightarrow> (None, s4\<lparr>tokenData := Some td\<rparr>)))))"

definition Manager_GetToken :: "state \<Rightarrow> string \<times> bool" where
  "Manager_GetToken s =
     (case tokenData s of
        None \<Rightarrow> ('''', False)
      | Some td \<Rightarrow> (if Token td = '''' then ('''', False) else (Token td, True)))"

definition ClearToken :: "env \<Rightarrow> state \<Rightarrow> error option \<times> state" where
  "ClearToken E s =
     (case os_Remove E s of
        (Some err, s1) \<Rightarrow>
          (if \<not> os_IsNotExist err then (Some (RemoveTokenFileFailed err), s1)
           else (None, s1\<lparr>tokenData := None\<rparr>))
      | (None, s1) \<Rightarrow> (None, s1\<lparr>tokenData := None\<rparr>))"

definition HasValidToken :: "env \<Rightarrow> state \<Rightarrow> bool \<times> state" where
  "HasValidToken E s =
     (case tokenData s of
        None \<Rightarrow> (False, s)
      | Some td \<Rightarrow>
          (if Token td = '''' then (False, s)
           else (case time_Now E s of (now, s1) \<Rightarrow> (now < ExpiresAt td, s1))))"

section \<open>Login exchange and supervisor (mizito/auth.go)\<close>

definition Login :: "env \<Rightarrow> state \<Rightarrow> error option \<times> state" where
  "Login E s =
     (let cfg = config E;
          loginReq0 = \<lparr>Username = MizitoUsername cfg, Password = MizitoPassword cfg,
                       LoginCode = None, RegID = None\<rparr>;
          loginReq1 = (if MizitoLoginCode cfg \<noteq> '''' \<and> MizitoLoginCode cfg \<noteq> ''null''
                       then loginReq0\<lparr>LoginCode := Some (MizitoLoginCode cfg)\<rparr>
                       else loginReq0);
          loginReq = (if MizitoRegID cfg \<noteq> '''' \<and> MizitoRegID cfg \<noteq> ''null''
                      then loginReq1\<lparr>RegID := Some (MizitoRegID cfg)\<rparr>
                      else loginReq1)
      in case json_Marshal_LoginRequest E loginReq of
           Inl e \<Rightarrow> (Some (MarshalLoginRequestFailed e), s)
         | Inr jsonData \<Rightarrow>
             (case http_NewRequest E (MizitoLoginURL cfg) of
                Some e \<Rightarrow> (Some (CreateLoginRequestFailed e), s)
              | None \<Rightarrow>
                  (case client_Do_login E
                          \<lparr>req_url = MizitoLoginURL cfg, req_body = jsonData, x_token = None\<rparr> s of
                     (DoErr e, s1) \<Rightarrow> (Some (LoginRequestFailed e), s1)
                   | (ReadErr status e, s1) \<Rightarrow> (Some (ReadLoginResponseFailed e), s1)
                   | (Resp status body, s1) \<Rightarrow>
                       (if status \<noteq> 200 then (Some (LoginHTTPStatus status), s1)
                        else case json_Unmarshal_LoginResponse E body of
                               Inl e \<Rightarrow> (Some (ParseLoginResponseFailed e), s1)
                             | Inr loginResp \<Rightarrow>
                                 (if lr_Status loginResp \<noteq> 1 then
                                    (case json_Unmarshal_ErrorResponse E body of
                                       Inr errorResp \<Rightarrow>
                                         (Some (LoginFailedMessage (lr_Status loginResp)
                                                  (er_Message errorResp)), s1)
                                     | Inl e \<Rightarrow>
                                         (Some (LoginFailedStatus (lr_Status loginResp)), s1))
                                  else
                                    (case SaveToken E (lr_Token loginResp)
                                            (lr_LastLoginUID loginResp) s1 of
                                       (Some err, s2) \<Rightarrow> (Some (SaveJWTTokenFailed err), s2)
                                     | (None, s2) \<Rightarrow> (None, s2)))))))"

definition EnsureValidToken :: "env \<Rightarrow> state \<Rightarrow> error option \<times> state" where
  "EnsureValidToken E s =
     (case HasValidToken E s of
        (True, s1) \<Rightarrow> (None, s1)
      | (False, s1) \<Rightarrow>
          (case LoadToken E s1 of
             (loadErr, s2) \<Rightarrow>
               (case HasValidToken E s2 of
                  (True, s3) \<Rightarrow> (None, s3)
                | (False, s3) \<Rightarrow> Login E s3)))"

definition RefreshToken :: "env \<Rightarrow> state \<Rightarrow> error option \<times> state" where
  "RefreshToken E s =
     (case ClearToken E s of (clearErr, s1) \<Rightarrow> Login E s1)"

definition AuthService_GetToken :: "env \<Rightarrow> state \<Rightarrow> (error + string) \<times> state" where
  "AuthService_GetToken E s =
     (case EnsureValidToken E s of
        (Some err, s1) \<Rightarrow> (Inl (EnsureValidTokenFailed err), s1)
      | (None, s1) \<Rightarrow>
          (case Manager_GetToken s1 of
             (token, False) \<Rightarrow> (Inl NoJWTTokenAvailable, s1)
           | (token, True) \<Rightarrow> (Inr token, s1)))"

section \<open>Delivery pipeline (mizito/message.go)\<close>

text \<open>
  Lines 210 to 236 of sendMessageWithRetry: what a body received with status 200 means.
  The body is first decoded as a BoolResponse, then as a MessageResponse.
\<close>

definition check_body :: "env \<Rightarrow> bytes \<Rightarrow> error option" where
  "check_body E body =
     (case json_Unmarshal_BoolResponse E body of
        Inr boolResp \<Rightarrow> (if boolResp then None else Some ReceivedFalseResponse)
      | Inl e \<Rightarrow>
          (case json_Unmarshal_MessageResponse E body of
             Inr msgResp \<Rightarrow>
               (if mr_Status msgResp \<noteq> 1
                then Some (SendFailedStatus (mr_Status msgResp) (mr_Message msgResp))
                else None)
           | Inl e2 \<Rightarrow> Some UnexpectedResponseFormat))"

text \<open>
  Lines 162 to 177: on a retry the token is refreshed and the new one is put into the
  request; a failure there is the last error of the attempt, which ends.
\<close>

definition retry_prepare ::
  "env \<Rightarrow> int \<Rightarrow> request \<Rightarrow> state \<Rightarrow> (error + request) \<times> state" where
  "retry_prepare E attempt req s =
     (if attempt > 0 then
        (case RefreshToken E s of
           (Some err, s1) \<Rightarrow> (Inl (RefreshOnRetryFailed err), s1)
         | (None, s1) \<Rightarrow>
             (case AuthService_GetToken E s1 of
                (Inl err, s2) \<Rightarrow> (Inl (GetRefreshedTokenFailed err), s2)
              | (Inr token, s2) \<Rightarrow> (Inr (req\<lparr>x_token := Some token\<rparr>), s2)))
      else (Inr req, s))"

text \<open>
  Lines 179 to 236: the request is made and the answer decides whether the loop goes on
  (continue, with the last error) or the function returns.
\<close>

datatype step = Continue "error option" | Return "error option"

definition send_once ::
  "env \<Rightarrow> int \<Rightarrow> int \<Rightarrow> error option \<Rightarrow> request \<Rightarrow> state \<Rightarrow> step \<times> state" where
  "send_once E maxRetries attempt lastErr req s =
     (case client_Do_send E req s of
        (DoErr e, s1) \<Rightarrow> (Continue (Some (MessageRequestFailed e)), s1)
      | (ReadErr status e, s1) \<Rightarrow> (Continue (Some (ReadMessageResponseFailed e)), s1)
      | (Resp status body, s1) \<Rightarrow>
          (if status = 401 then
             (if attempt < maxRetries then (Continue lastErr, s1)
              else (Return (Some (UnauthorizedAfterRetries (maxRetries + 1))), s1))
           else if status \<noteq> 200 then (Return (Some (SendHTTPStatus status body)), s1)
           else (Return (check_body E body), s1)))"

text \<open>The for loop of sendMessageWithRetry, from the given attempt on.\<close>

function retry_loop ::
  "env \<Rightarrow> int \<Rightarrow> int \<Rightarrow> error option \<Rightarrow> request \<Rightarrow> state \<Rightarrow> error option \<times> state" where
  "retry_loop E maxRetries attempt lastErr req s =
     (if attempt \<le> maxRetries then
        (case retry_prepare E attempt req s of
           (Inl e, s1) \<Rightarrow> retry_loop E maxRetries (attempt + 1) (Some e) req s1
         | (Inr req1, s1) \<Rightarrow>
             (case send_once E maxRetries attempt lastErr req1 s1 of
                (Continue lastErr1, s2) \<Rightarrow>
                  retry_loop E maxRetries (attempt + 1) lastErr1 req1 s2
              | (Return r, s2) \<Rightarrow> (r, s2)))
      else (Some (FailedAfterAttempts (maxRetries + 1) lastErr), s))"
  by pat_completeness auto
termination
  by (relation "measure (\<lambda>(E, maxRetries, attempt, lastErr, req, s).
        nat (maxRetries + 1 - attempt))") auto

declare retry_loop.simps [simp del]

definition sendMessageWithRetry ::
  "env \<Rightarrow> request \<Rightarrow> int \<Rightarrow> state \<Rightarrow> error option \<times> state" where
  "sendMessageWithRetry E req maxRetries s = retry_loop E maxRetries 0 None req s"

definition SendMessage :: "env \<Rightarrow> string \<Rightarrow> state \<Rightarrow> error option \<times> state" where
  "SendMessage E messageText s =
     (case AuthService_GetToken E s of
        (Inl err, s1) \<Rightarrow> (Some (GetJWTTokenFailed err), s1)
      | (Inr token, s1) \<Rightarrow>
          (case time_Now E s1 of
             (now, s2) \<Rightarrow>
               (case message_json E messageText now of
                  Inl e \<Rightarrow> (Some (MarshalMessageRequestFailed e), s2)
                | Inr jsonData \<Rightarrow>
                    (case http_NewRequest E (MizitoChatAPIURL (config E)) of
                       Some e \<Rightarrow> (Some (CreateMessageRequestFailed e), s2)
                     | None \<Rightarrow>
                         sendMessageWithRetry E
                           \<lparr>req_url = MizitoChatAPIURL (config E), req_body = jsonData,
                            x_token = Some token\<rparr> 2 s2))))"

section \<open>A concrete environment\<close>

text \<open>
  A small outside world to run the code in: the clock ticks one nanosecond a call, the
  token file holds the token itself (the content \<open>{}\<close> decodes to the zero record
  and \<open>garbage\<close> does not decode), a login answer's body is the token it issues,
  and the file system and the two endpoints answer as the parameters say. The body
  \<open>true\<close> decodes as a boolean, the bodies \<open>{status:1}\<close> and
  \<open>{status:0}\<close> as a MessageResponse, and nothing else decodes.
\<close>

definition demo_config :: Config where
  "demo_config =
     \<lparr>MizitoLoginURL = ''https://app.mizito.ir/capi/session/create'',
      MizitoChatAPIURL = ''https://app.mizito.ir/api/chat/send'',
      MizitoUsername = ''user'', MizitoPassword = ''secret'',
      MizitoLoginCode = ''null'', MizitoRegID = ''null'',
      JWTTokenFile = ''token.json''\<rparr>"

definition demo_env ::
  "(nat \<Rightarrow> liberr option) \<Rightarrow> (nat \<Rightarrow> http_outcome) \<Rightarrow> (nat \<Rightarrow> http_outcome) \<Rightarrow> env" where
  "demo_env faults logins sends =
     \<lparr>config = demo_config,
      json_MarshalIndent = (\<lambda>td. Inr (Token td)),
      json_Unmarshal_TokenData =
        (\<lambda>b. if b = ''garbage'' then Inl ''invalid character''
             else if b = ''{}''
             then Inr \<lparr>Token = '''', LastLoginUID = '''', ExpiresAt = 0, UpdatedAt = 0\<rparr>
             else Inr \<lparr>Token = b, LastLoginUID = '''', ExpiresAt = validity, UpdatedAt = 0\<rparr>),
      json_Marshal_LoginRequest = (\<lambda>r. Inr (Username r)),
      json_Unmarshal_LoginResponse =
        (\<lambda>b. Inr \<lparr>lr_Status = 1, lr_Token = b, lr_LastLoginUID = ''U1''\<rparr>),
      json_Unmarshal_ErrorResponse = (\<lambda>b. Inl ''no message''),
      json_Unmarshal_BoolResponse =
        (\<lambda>b. if b = ''true'' then Inr True else if b = ''false'' then Inr False
             else Inl ''cannot unmarshal into bool''),
      json_Unmarshal_MessageResponse =
        (\<lambda>b. if b = ''{status:1}'' then Inr \<lparr>mr_Status = 1, mr_Message = ''''\<rparr>
             else if b = ''{status:0}'' then Inr \<lparr>mr_Status = 0, mr_Message = ''''\<rparr>
             else Inl ''cannot unmarshal into MessageResponse''),
      http_NewRequest = (\<lambda>url. None),
      filepath_Dir = (\<lambda>p. ''.''),
      message_json = (\<lambda>messageText now. Inr messageText),
      clock = (\<lambda>n. int n),
      fs_fault = faults,
      partial_write = (\<lambda>n old data. old),
      login_reply = (\<lambda>n req. logins n),
      send_reply = (\<lambda>n req. sends n)\<rparr>"

definition demo_state :: "TokenData option \<Rightarrow> bytes option \<Rightarrow> state" where
  "demo_state td content =
     \<lparr>tokenData = td, tokenFile = content, n_now = 0, n_fs = 0, n_login = 0, n_send = 0,
      trace = []\<rparr>"

definition demo_token :: TokenData where
  "demo_token = \<lparr>Token = ''T0'', LastLoginUID = ''U0'', ExpiresAt = 1000, UpdatedAt = 0\<rparr>"

definition no_faults :: "nat \<Rightarrow> liberr option" where
  "no_faults n = None"

definition all_faults :: "nat \<Rightarrow> liberr option" where
  "all_faults n = Some ''permission denied''"

definition login_issues :: "nat \<Rightarrow> http_outcome" where
  "login_issues n = Resp 200 (if n = 0 then ''T1'' else ''T2'')"

definition login_refused_once :: "nat \<Rightarrow> http_outcome" where
  "login_refused_once n = (if n = 0 then DoErr ''connection refused'' else Resp 200 ''T2'')"

definition sends_unauthorized :: "nat \<Rightarrow> http_outcome" where
  "sends_unauthorized n = Resp 401 []"

definition sends_recover :: "nat \<Rightarrow> nat \<Rightarrow> http_outcome" where
  "sends_recover k n = (if n < k then Resp 401 [] else Resp 200 ''true'')"


definition sends_body :: "bytes \<Rightarrow> nat \<Rightarrow> http_outcome" where
  "sends_body b n = Resp 200 b"

text \<open>The send endpoint always answers 401; logins succeed.\<close>

definition env_plain :: env where
  "env_plain = demo_env no_faults login_issues sends_unauthorized"

text \<open>The same with a file system whose every call fails.\<close>

definition env_faulty :: env where
  "env_faulty = demo_env all_faults login_issues sends_unauthorized"

text \<open>The send endpoint answers 401 twice, then 200 with body true.\<close>

definition env_recover :: env where
  "env_recover = demo_env no_faults login_issues (sends_recover 2)"

text \<open>The send endpoint answers 401 once, and the first login cannot connect.\<close>

definition env_refused :: env where
  "env_refused = demo_env no_faults login_refused_once (sends_recover 1)"


text \<open>The send endpoint answers 200 with the given body.\<close>

definition env_body :: "bytes \<Rightarrow> env" where
  "env_body b = demo_env no_faults login_issues (sends_body b)"



text \<open>A process that holds the valid token T0 and has no token file.\<close>

definition state_T0 :: state where
  "state_T0 = demo_state (Some demo_token) None"

text \<open>The send request that carries the token T0, and the login request.\<close>

definition demo_request :: request where
  "demo_request =
     \<lparr>req_url = ''https://app.mizito.ir/api/chat/send'', req_body = ''hello'',
      x_token = Some ''T0''\<rparr>"

definition login_request :: request where
  "login_request =
     \<lparr>req_url = ''https://app.mizito.ir/capi/session/create'', req_body = ''user'',
      x_token = None\<rparr>"

section \<open>Observations on traces\<close>

text \<open>The answers to the send requests in a trace, newest first.\<close>

fun send_outcomes :: "event list \<Rightarrow> http_outcome list" where
  "send_outcomes [] = []"
| "send_outcomes (EvSend req out # evs) = out # send_outcomes evs"
| "send_outcomes (ev # evs) = send_outcomes evs"

text \<open>
  The number of refreshes in a trace: RefreshToken is the only caller of ClearToken, which
  calls os.Remove exactly once.
\<close>

definition refreshes :: "event list \<Rightarrow> nat" where
  "refreshes evs = count_list evs EvRemove"

text \<open>Between two states no send request and no refresh happened.\<close>

definition quiet :: "state \<Rightarrow> state \<Rightarrow> bool" where
  "quiet s s' =
     (send_outcomes (trace s') = send_outcomes (trace s) \<and>
      refreshes (trace s') = refreshes (trace s))"

text \<open>
  What holds of a run of the loop from attempt a in which every attempt up to maxRetries
  made its send request, the newest answer being out: each retry refreshed once, the last
  thing that happened is the last send request, and its answer decides the result.
\<close>

definition full_run ::
  "env \<Rightarrow> int \<Rightarrow> int \<Rightarrow> state \<Rightarrow> error option \<Rightarrow> state \<Rightarrow> http_outcome \<Rightarrow> bool" where
  "full_run E N a s r s' out =
     (refreshes (trace s') = refreshes (trace s) + nat (N - a) + (if 0 < a then 1 else 0) \<and>
      (\<exists>rq tl. trace s' = EvSend rq out # tl) \<and>
      r = (case out of
             DoErr e \<Rightarrow> Some (FailedAfterAttempts (N + 1) (Some (MessageRequestFailed e)))
           | ReadErr st e \<Rightarrow>
               Some (FailedAfterAttempts (N + 1) (Some (ReadMessageResponseFailed e)))
           | Resp st b \<Rightarrow>
               if st = 401 then Some (UnauthorizedAfterRetries (N + 1))
               else if st \<noteq> 200 then Some (SendHTTPStatus st b) else check_body E b))"

text \<open>
  A run of the loop from attempt a makes at most one send request for each remaining
  attempt, and when it makes all of them it is a full run.
\<close>

definition run_sends :: "env \<Rightarrow> int \<Rightarrow> int \<Rightarrow> state \<Rightarrow> error option \<Rightarrow> state \<Rightarrow> bool" where
  "run_sends E N a s r s' =
     (\<exists>ss. send_outcomes (trace s') = ss @ send_outcomes (trace s) \<and>
           length ss \<le> nat (N + 1 - a) \<and>
           (length ss = nat (N + 1 - a) \<longrightarrow>
              (\<forall>out rest. ss = out # rest \<longrightarrow> full_run E N a s r s' out)))"

text \<open>
  The invariant of the data model: the credential is absent, or its token is not empty and
  it expires after it was issued.
\<close>

definition cred_inv :: "TokenData option \<Rightarrow> bool" where
  "cred_inv rec =
     (case rec of
        None \<Rightarrow> True
      | Some td \<Rightarrow> Token td \<noteq> '''' \<and> UpdatedAt td < ExpiresAt td)"

section \<open>Unfolding the definitions\<close>

lemmas demo_defs = demo_env_def demo_state_def demo_token_def demo_config_def validity_def
  no_faults_def login_issues_def sends_unauthorized_def env_plain_def state_T0_def

lemmas store_defs = LoadToken_def SaveToken_def ClearToken_def HasValidToken_def
  Manager_GetToken_def time_Now_def ioutil_ReadFile_def os_MkdirAll_def ioutil_WriteFile_def
  os_Remove_def fs_call_def os_IsNotExist_def

lemmas auth_defs = Login_def EnsureValidToken_def RefreshToken_def AuthService_GetToken_def
  client_Do_login_def

lemmas send_defs = SendMessage_def sendMessageWithRetry_def retry_loop.simps retry_prepare_def
  send_once_def check_body_def client_Do_send_def

lemmas all_defs = demo_defs store_defs auth_defs send_defs refreshes_def

section \<open>What the parts of a run add to the trace\<close>

lemma quiet_refl [simp]: "quiet s s"
  by (simp add: quiet_def)

lemma quiet_trans: "quiet s s1 \<Longrightarrow> quiet s1 s2 \<Longrightarrow> quiet s s2"
  by (simp add: quiet_def)

lemma time_Now_quiet: "time_Now E s = (t, s') \<Longrightarrow> quiet s s'"
  by (auto simp: time_Now_def quiet_def)

lemma ReadFile_quiet: "ioutil_ReadFile E s = (x, s') \<Longrightarrow> quiet s s'"
  by (auto simp: ioutil_ReadFile_def fs_call_def quiet_def refreshes_def split: option.splits)

lemma MkdirAll_quiet: "os_MkdirAll E d s = (x, s') \<Longrightarrow> quiet s s'"
  by (auto simp: os_MkdirAll_def fs_call_def quiet_def refreshes_def split: option.splits)

lemma WriteFile_quiet: "ioutil_WriteFile E d s = (x, s') \<Longrightarrow> quiet s s'"
  by (auto simp: ioutil_WriteFile_def fs_call_def quiet_def refreshes_def split: option.splits)

lemma Do_login_quiet: "client_Do_login E req s = (x, s') \<Longrightarrow> quiet s s'"
  by (auto simp: client_Do_login_def quiet_def refreshes_def)

lemma LoadToken_quiet: "LoadToken E s = (x, s') \<Longrightarrow> quiet s s'"
  by (auto simp: LoadToken_def quiet_def split: prod.splits sum.splits if_splits dest!: ReadFile_quiet)

lemma HasValidToken_quiet: "HasValidToken E s = (x, s') \<Longrightarrow> quiet s s'"
  by (auto simp: HasValidToken_def quiet_def split: prod.splits option.splits if_splits dest!: time_Now_quiet)

lemma SaveToken_quiet: "SaveToken E tok uid s = (x, s') \<Longrightarrow> quiet s s'"
  by (auto simp: SaveToken_def Let_def quiet_def split: prod.splits sum.splits option.splits if_splits
      dest!: time_Now_quiet MkdirAll_quiet WriteFile_quiet)

lemma Login_quiet: "Login E s = (x, s') \<Longrightarrow> quiet s s'"
  by (auto simp: Login_def Let_def quiet_def split: prod.splits sum.splits option.splits if_splits http_outcome.splits
      dest!: Do_login_quiet SaveToken_quiet)

lemma EnsureValidToken_quiet: "EnsureValidToken E s = (x, s') \<Longrightarrow> quiet s s'"
  by (auto simp: EnsureValidToken_def quiet_def split: prod.splits bool.splits
      dest!: HasValidToken_quiet LoadToken_quiet Login_quiet)

lemma GetToken_quiet: "AuthService_GetToken E s = (x, s') \<Longrightarrow> quiet s s'"
  by (auto simp: AuthService_GetToken_def split: prod.splits option.splits bool.splits
      dest!: EnsureValidToken_quiet)


lemma Remove_effect: "os_Remove E s = (x, s') \<Longrightarrow>
    send_outcomes (trace s') = send_outcomes (trace s) \<and> refreshes (trace s') = Suc (refreshes (trace s))"
  by (auto simp: os_Remove_def fs_call_def refreshes_def split: option.splits)

lemma ClearToken_effect: "ClearToken E s = (x, s') \<Longrightarrow>
    send_outcomes (trace s') = send_outcomes (trace s) \<and> refreshes (trace s') = Suc (refreshes (trace s))"
  by (auto simp: ClearToken_def split: prod.splits option.splits if_splits dest!: Remove_effect)

lemma RefreshToken_effect: "RefreshToken E s = (x, s') \<Longrightarrow>
    send_outcomes (trace s') = send_outcomes (trace s) \<and> refreshes (trace s') = Suc (refreshes (trace s))"
  by (auto simp: RefreshToken_def quiet_def split: prod.splits dest!: ClearToken_effect Login_quiet)

lemma retry_prepare_effect: "retry_prepare E a req s = (p, s') \<Longrightarrow>
    send_outcomes (trace s') = send_outcomes (trace s) \<and>
    refreshes (trace s') = refreshes (trace s) + (if 0 < a then 1 else 0)"
  by (auto simp: retry_prepare_def quiet_def split: prod.splits option.splits sum.splits if_splits
      dest!: RefreshToken_effect GetToken_quiet)

lemma send_once_unfold:
  "send_once E N a le req s =
     (case send_reply E (n_send s) req of
        DoErr e \<Rightarrow> Continue (Some (MessageRequestFailed e))
      | ReadErr status e \<Rightarrow> Continue (Some (ReadMessageResponseFailed e))
      | Resp status body \<Rightarrow>
          (if status = 401 then
             (if a < N then Continue le
              else Return (Some (UnauthorizedAfterRetries (N + 1))))
           else if status \<noteq> 200 then Return (Some (SendHTTPStatus status body))
           else Return (check_body E body)),
      snd (client_Do_send E req s))"
  by (simp add: send_once_def client_Do_send_def split: http_outcome.split)

lemma send_once_trace: "send_once E N a le req s = (st, s') \<Longrightarrow>
    trace s' = EvSend req (send_reply E (n_send s) req) # trace s"
  by (auto simp: send_once_unfold client_Do_send_def)

lemma send_once_Return: "send_once E N a le req s = (Return r, s') \<Longrightarrow>
    \<exists>st b. send_reply E (n_send s) req = Resp st b \<and> (st = 401 \<longrightarrow> \<not> a < N) \<and>
      r = (if st = 401 then Some (UnauthorizedAfterRetries (N + 1))
           else if st \<noteq> 200 then Some (SendHTTPStatus st b) else check_body E b)"
  by (cases "send_reply E (n_send s) req") (auto simp: send_once_unfold split: if_splits)

lemma send_once_Continue: "send_once E N a le req s = (Continue le1, s') \<Longrightarrow>
    send_reply E (n_send s) req = Resp st b \<Longrightarrow> st = 401 \<and> a < N \<and> le1 = le"
  by (auto simp: send_once_unfold split: if_splits)

section \<open>Runs of the retry loop\<close>

lemma retry_loop_exit:
  "\<not> a \<le> N \<Longrightarrow> retry_loop E N a le req s = (Some (FailedAfterAttempts (N + 1) le), s)"
  by (simp add: retry_loop.simps)

lemma retry_loop_Inl:
  "a \<le> N \<Longrightarrow> retry_prepare E a req s = (Inl e, s1) \<Longrightarrow>
   retry_loop E N a le req s = retry_loop E N (a + 1) (Some e) req s1"
  by (subst retry_loop.simps) simp

lemma retry_loop_Continue:
  "a \<le> N \<Longrightarrow> retry_prepare E a req s = (Inr req1, s1) \<Longrightarrow>
   send_once E N a le req1 s1 = (Continue le1, s2) \<Longrightarrow>
   retry_loop E N a le req s = retry_loop E N (a + 1) le1 req1 s2"
  by (subst retry_loop.simps) simp

lemma retry_loop_Return:
  "a \<le> N \<Longrightarrow> retry_prepare E a req s = (Inr req1, s1) \<Longrightarrow>
   send_once E N a le req1 s1 = (Return r, s2) \<Longrightarrow>
   retry_loop E N a le req s = (r, s2)"
  by (subst retry_loop.simps) simp

lemma retry_loop_run_sends:
  "retry_loop E N a le req s = (r, s') \<Longrightarrow> 0 \<le> a \<Longrightarrow> run_sends E N a s r s'"
proof (induction E N a le req s arbitrary: r s' rule: retry_loop.induct)
  case (1 E N a le req s)
  show ?case
  proof (cases "a \<le> N")
    case False
    with "1.prems" have "s' = s" by (simp add: retry_loop_exit)
    with False show ?thesis by (simp add: run_sends_def)
  next
    case True
    obtain p s1 where prep: "retry_prepare E a req s = (p, s1)" by force
    note eff = retry_prepare_effect [OF prep]
    show ?thesis
    proof (cases p)
      case (Inl e)
      with prep True "1.prems" have rec: "retry_loop E N (a + 1) (Some e) req s1 = (r, s')"
        by (simp add: retry_loop_Inl)
      have "run_sends E N (a + 1) s1 r s'"
        using "1.IH"(1) [OF True prep [symmetric] Inl rec] "1.prems"(2) by simp
      then obtain ss where ss: "send_outcomes (trace s') = ss @ send_outcomes (trace s1)"
        and len: "length ss \<le> nat (N + 1 - (a + 1))"
        by (auto simp: run_sends_def)
      from len True have "length ss < nat (N + 1 - a)" by simp
      with ss eff show ?thesis by (auto simp: run_sends_def)
    next
      case (Inr req1)
      obtain st s2 where snd1: "send_once E N a le req1 s1 = (st, s2)" by force
      let ?out = "send_reply E (n_send s1) req1"
      have tr2: "trace s2 = EvSend req1 ?out # trace s1"
        by (rule send_once_trace [OF snd1])
      show ?thesis
      proof (cases st)
        case (Return r0)
        with prep Inr snd1 True "1.prems" have res: "r = r0" "s' = s2"
          by (simp_all add: retry_loop_Return)
        from snd1 Return obtain code b where out: "?out = Resp code b"
          and r0: "r0 = (if code = 401 then Some (UnauthorizedAfterRetries (N + 1))
               else if code \<noteq> 200 then Some (SendHTTPStatus code b) else check_body E b)"
          using send_once_Return by blast
        have sends: "send_outcomes (trace s') = [?out] @ send_outcomes (trace s)"
          using tr2 res eff by simp
        have full: "full_run E N a s r s' ?out" if "length [?out] = nat (N + 1 - a)"
        proof -
          from that True have "a = N" by simp
          then show ?thesis
            using tr2 res eff out r0 by (simp add: full_run_def refreshes_def)
        qed
        have "length [?out] \<le> nat (N + 1 - a)" using True by simp
        with sends full show ?thesis
          unfolding run_sends_def by (intro exI [of _ "[?out]"]) simp
      next
        case (Continue le1)
        with prep Inr snd1 True "1.prems"
        have rec: "retry_loop E N (a + 1) le1 req1 s2 = (r, s')"
          by (simp add: retry_loop_Continue)
        have "run_sends E N (a + 1) s2 r s'"
          using "1.IH"(2) [OF True prep [symmetric] Inr snd1 [symmetric] Continue rec] "1.prems"(2)
          by simp
        then obtain ss where ss: "send_outcomes (trace s') = ss @ send_outcomes (trace s2)"
          and len: "length ss \<le> nat (N + 1 - (a + 1))"
          and fullrec: "length ss = nat (N + 1 - (a + 1)) \<longrightarrow>
                 (\<forall>out rest. ss = out # rest \<longrightarrow> full_run E N (a + 1) s2 r s' out)"
          unfolding run_sends_def by blast
        have sends: "send_outcomes (trace s') = (ss @ [?out]) @ send_outcomes (trace s)"
          using ss tr2 eff by simp
        have len': "length (ss @ [?out]) \<le> nat (N + 1 - a)" using len True by simp
        have full: "full_run E N a s r s' out"
          if full_len: "length (ss @ [?out]) = nat (N + 1 - a)" and newest: "ss @ [?out] = out # rest"
          for out rest
        proof (cases "a + 1 \<le> N")
          case True
          from full_len \<open>a \<le> N\<close> have l: "length ss = nat (N + 1 - (a + 1))" by simp
          with True have "ss \<noteq> []" by auto
          with newest obtain rest0 where "ss = out # rest0" by (cases ss) auto
          from fullrec [rule_format, OF l this] eff tr2 "1.prems"(2) True show ?thesis
            by (auto simp: full_run_def refreshes_def nat_diff_distrib)
        next
          case False
          with \<open>a \<le> N\<close> have aN: "a = N" by simp
          with rec have res: "s' = s2" "r = Some (FailedAfterAttempts (N + 1) le1)"
            by (simp_all add: retry_loop_exit)
          from full_len aN have "ss = []" by simp
          with newest have o: "out = ?out" by simp
          have "case ?out of
               DoErr e \<Rightarrow> le1 = Some (MessageRequestFailed e)
             | ReadErr st e \<Rightarrow> le1 = Some (ReadMessageResponseFailed e)
             | Resp st b \<Rightarrow> False"
            using snd1 Continue aN
            by (auto simp: send_once_unfold split: http_outcome.splits if_splits)
          then show ?thesis
            using res tr2 eff aN o
            by (auto simp: full_run_def refreshes_def split: http_outcome.splits)
        qed
        from sends len' full show ?thesis
          unfolding run_sends_def by (intro exI [of _ "ss @ [?out]"]) blast
      qed
    qed
  qed
qed

lemma SendMessage_cases:
  assumes "SendMessage E messageText s = (r, s')"
  shows "quiet s s' \<or> (\<exists>req s2. quiet s s2 \<and> retry_loop E 2 0 None req s2 = (r, s'))"
proof -
  obtain g s1 where g: "AuthService_GetToken E s = (g, s1)" by force
  have q1: "quiet s s1" by (rule GetToken_quiet [OF g])
  show ?thesis
  proof (cases g)
    case (Inl err)
    with assms g have "s' = s1" by (simp add: SendMessage_def)
    with q1 show ?thesis by simp
  next
    case (Inr token)
    obtain now s2 where n: "time_Now E s1 = (now, s2)" by force
    have q2: "quiet s s2" using q1 time_Now_quiet [OF n] by (rule quiet_trans)
    show ?thesis
    proof (cases "message_json E messageText now")
      case (Inl e)
      with assms g Inr n have "s' = s2" by (simp add: SendMessage_def)
      with q2 show ?thesis by simp
    next
      case body: (Inr jsonData)
      show ?thesis
      proof (cases "http_NewRequest E (MizitoChatAPIURL (config E))")
        case (Some e)
        with assms g Inr n body have "s' = s2" by (simp add: SendMessage_def)
        with q2 show ?thesis by simp
      next
        case None
        with assms g Inr n body
        have "retry_loop E 2 0 None
                \<lparr>req_url = MizitoChatAPIURL (config E), req_body = jsonData,
                 x_token = Some token\<rparr> s2 = (r, s')"
          by (simp add: SendMessage_def sendMessageWithRetry_def)
        with q2 show ?thesis by blast
      qed
    qed
  qed
qed

lemma SendMessage_three_sends:
  assumes run: "SendMessage E messageText s = (r, s')"
    and sends: "send_outcomes (trace s') = [o3, o2, o1] @ send_outcomes (trace s)"
  shows "full_run E 2 0 s r s' o3"
proof -
  from SendMessage_cases [OF run] show ?thesis
  proof
    assume "quiet s s'"
    with sends show ?thesis by (simp add: quiet_def)
  next
    assume "\<exists>req s2. quiet s s2 \<and> retry_loop E 2 0 None req s2 = (r, s')"
    then obtain req s2 where q: "quiet s s2" and loop: "retry_loop E 2 0 None req s2 = (r, s')"
      by blast
    from retry_loop_run_sends [OF loop] obtain ss
      where ss: "send_outcomes (trace s') = ss @ send_outcomes (trace s2)"
        and full: "length ss = nat (2 + 1 - 0) \<longrightarrow>
                 (\<forall>out rest. ss = out # rest \<longrightarrow> full_run E 2 0 s2 r s' out)"
      unfolding run_sends_def by blast
    from ss sends q have "ss = [o3, o2, o1]" by (simp add: quiet_def)
    with full have "full_run E 2 0 s2 r s' o3" by simp
    with q show ?thesis by (simp add: full_run_def quiet_def)
  qed
qed

text \<open>An answer with status 200 ends the run.\<close>

lemma retry_loop_ok_answer:
  "retry_loop E N a le req s = (r, s') \<Longrightarrow>
   \<exists>ss. send_outcomes (trace s') = ss @ send_outcomes (trace s) \<and>
        (\<forall>body. Resp 200 body \<in> set ss \<longrightarrow>
           (\<exists>rq tl. trace s' = EvSend rq (Resp 200 body) # tl) \<and> r = check_body E body)"
proof (induction E N a le req s arbitrary: r s' rule: retry_loop.induct)
  case (1 E N a le req s)
  show ?case
  proof (cases "a \<le> N")
    case False
    with "1.prems" have "s' = s" by (simp add: retry_loop_exit)
    then show ?thesis by simp
  next
    case True
    obtain p s1 where prep: "retry_prepare E a req s = (p, s1)" by force
    from retry_prepare_effect [OF prep]
    have eff: "send_outcomes (trace s1) = send_outcomes (trace s)" by simp
    show ?thesis
    proof (cases p)
      case (Inl e)
      with prep True "1.prems" have rec: "retry_loop E N (a + 1) (Some e) req s1 = (r, s')"
        by (simp add: retry_loop_Inl)
      from "1.IH"(1) [OF True prep [symmetric] Inl rec] eff show ?thesis by simp
    next
      case (Inr req1)
      obtain st s2 where snd1: "send_once E N a le req1 s1 = (st, s2)" by force
      let ?out = "send_reply E (n_send s1) req1"
      have tr2: "trace s2 = EvSend req1 ?out # trace s1"
        by (rule send_once_trace [OF snd1])
      show ?thesis
      proof (cases st)
        case (Return r0)
        with prep Inr snd1 True "1.prems" have res: "r = r0" "s' = s2"
          by (simp_all add: retry_loop_Return)
        from snd1 Return obtain code b where out: "?out = Resp code b"
          and r0: "r0 = (if code = 401 then Some (UnauthorizedAfterRetries (N + 1))
               else if code \<noteq> 200 then Some (SendHTTPStatus code b) else check_body E b)"
          using send_once_Return by blast
        have sends: "send_outcomes (trace s') = [?out] @ send_outcomes (trace s)"
          using tr2 res eff by simp
        have "(\<exists>rq tl. trace s' = EvSend rq (Resp 200 body) # tl) \<and> r = check_body E body"
          if "Resp 200 body \<in> set [?out]" for body
          using that out r0 res tr2 by auto
        with sends show ?thesis by blast
      next
        case (Continue le1)
        with prep Inr snd1 True "1.prems"
        have rec: "retry_loop E N (a + 1) le1 req1 s2 = (r, s')"
          by (simp add: retry_loop_Continue)
        from "1.IH"(2) [OF True prep [symmetric] Inr snd1 [symmetric] Continue rec]
        obtain ss where ss: "send_outcomes (trace s') = ss @ send_outcomes (trace s2)"
          and ok: "\<forall>body. Resp 200 body \<in> set ss \<longrightarrow>
             (\<exists>rq tl. trace s' = EvSend rq (Resp 200 body) # tl) \<and> r = check_body E body"
          by blast
        have not_ok: "?out \<noteq> Resp 200 body" for body
          using send_once_Continue [OF snd1 [unfolded Continue]] by auto
        have sends: "send_outcomes (trace s') = (ss @ [?out]) @ send_outcomes (trace s)"
          using ss tr2 eff by simp
        have "(\<exists>rq tl. trace s' = EvSend rq (Resp 200 body) # tl) \<and> r = check_body E body"
          if "Resp 200 body \<in> set (ss @ [?out])" for body
          using that ok not_ok [of body] by auto
        with sends show ?thesis by blast
      qed
    qed
  qed
qed

lemma SendMessage_ok_answer:
  assumes run: "SendMessage E messageText s = (r, s')"
    and sends: "send_outcomes (trace s') = ss @ send_outcomes (trace s)"
    and ok: "Resp 200 body \<in> set ss"
  shows "(\<exists>rq tl. trace s' = EvSend rq (Resp 200 body) # tl) \<and> r = check_body E body"
proof -
  from SendMessage_cases [OF run] show ?thesis
  proof
    assume "quiet s s'"
    with sends ok show ?thesis by (simp add: quiet_def)
  next
    assume "\<exists>req s2. quiet s s2 \<and> retry_loop E 2 0 None req s2 = (r, s')"
    then obtain req s2 where q: "quiet s s2" and loop: "retry_loop E 2 0 None req s2 = (r, s')"
      by blast
    from retry_loop_ok_answer [OF loop] obtain ss'
      where ss': "send_outcomes (trace s') = ss' @ send_outcomes (trace s2)"
        and ok': "\<forall>body. Resp 200 body \<in> set ss' \<longrightarrow>
             (\<exists>rq tl. trace s' = EvSend rq (Resp 200 body) # tl) \<and> r = check_body E body"
      by blast
    from ss' sends q have "ss' = ss" by (simp add: quiet_def)
    with ok' ok show ?thesis by blast
  qed
qed

lemma SendMessage_first_answer:
  assumes g: "AuthService_GetToken E s = (Inr token, s1)"
    and n: "time_Now E s1 = (now, s2)"
    and j: "message_json E messageText now = Inr jsonData"
    and u: "http_NewRequest E (MizitoChatAPIURL (config E)) = None"
    and d: "client_Do_send E
              \<lparr>req_url = MizitoChatAPIURL (config E), req_body = jsonData,
               x_token = Some token\<rparr> s2 = (Resp 200 body, s3)"
  shows "SendMessage E messageText s = (check_body E body, s3) \<and>
         send_outcomes (trace s3) = [Resp 200 body] @ send_outcomes (trace s)"
proof -
  let ?req = "\<lparr>req_url = MizitoChatAPIURL (config E), req_body = jsonData,
               x_token = Some token\<rparr>"
  have p: "retry_prepare E 0 ?req s2 = (Inr ?req, s2)" by (simp add: retry_prepare_def)
  from d have once: "send_once E 2 0 None ?req s2 = (Return (check_body E body), s3)"
    by (simp add: send_once_def)
  have "retry_loop E 2 0 None ?req s2 = (check_body E body, s3)"
    by (rule retry_loop_Return [OF _ p once]) simp
  with g n j u have run: "SendMessage E messageText s = (check_body E body, s3)"
    by (simp add: SendMessage_def sendMessageWithRetry_def)
  from d have "trace s3 = EvSend ?req (Resp 200 body) # trace s2"
    by (auto simp: client_Do_send_def)
  moreover from GetToken_quiet [OF g] time_Now_quiet [OF n]
  have "send_outcomes (trace s2) = send_outcomes (trace s)" by (simp add: quiet_def)
  ultimately show ?thesis using run by simp
qed

section \<open>A successful refresh\<close>

lemma SaveToken_success:
  "SaveToken E token uid s = (None, s') \<Longrightarrow>
     n_login s' = n_login s \<and> (\<exists>td. tokenData s' = Some td \<and> Token td = token)"
  by (auto simp: store_defs Let_def split: sum.splits option.splits if_splits)

lemma Login_success:
  assumes "Login E s = (None, s')"
  shows "\<exists>rq body lr. login_reply E (n_login s) rq = Resp 200 body \<and>
           json_Unmarshal_LoginResponse E body = Inr lr \<and> lr_Status lr = 1 \<and>
           n_login s' = Suc (n_login s) \<and>
           (\<exists>td. tokenData s' = Some td \<and> Token td = lr_Token lr)"
  using assms
  by (auto simp: Login_def Let_def client_Do_login_def
      split: sum.splits option.splits if_splits http_outcome.splits prod.splits
      dest!: SaveToken_success; blast)

lemma ClearToken_n_login: "ClearToken E s = (x, s') \<Longrightarrow> n_login s' = n_login s"
  by (auto simp: store_defs split: option.splits if_splits)

lemma RefreshToken_success:
  assumes "RefreshToken E s = (None, s')"
  shows "\<exists>rq body lr. login_reply E (n_login s) rq = Resp 200 body \<and>
           json_Unmarshal_LoginResponse E body = Inr lr \<and> lr_Status lr = 1 \<and>
           n_login s' = Suc (n_login s) \<and>
           (\<exists>td. tokenData s' = Some td \<and> Token td = lr_Token lr)"
proof -
  obtain x s1 where c: "ClearToken E s = (x, s1)" by force
  with assms have l: "Login E s1 = (None, s')" by (simp add: RefreshToken_def)
  from Login_success [OF l] ClearToken_n_login [OF c] show ?thesis by simp
qed

lemma GetToken_holds:
  "AuthService_GetToken E s = (Inr tok, s') \<Longrightarrow> Manager_GetToken s' = (tok, True)"
  by (auto simp: AuthService_GetToken_def split: prod.splits option.splits bool.splits)

lemma GetToken_valid:
  assumes "tokenData s = Some td" and "fst (HasValidToken E s)"
  shows "AuthService_GetToken E s = (Inr (Token td), s\<lparr>n_now := Suc (n_now s)\<rparr>)"
  using assms
  by (auto simp: AuthService_GetToken_def EnsureValidToken_def HasValidToken_def time_Now_def
      Manager_GetToken_def split: if_splits)

lemma retry_prepare_retry:
  "0 \<le> a \<Longrightarrow> retry_prepare E (a + 1) req s =
     (case RefreshToken E s of
        (Some err, s1) \<Rightarrow> (Inl (RefreshOnRetryFailed err), s1)
      | (None, s1) \<Rightarrow>
          (case AuthService_GetToken E s1 of
             (Inl err, s2) \<Rightarrow> (Inl (GetRefreshedTokenFailed err), s2)
           | (Inr token, s2) \<Rightarrow> (Inr (req\<lparr>x_token := Some token\<rparr>), s2)))"
  by (simp add: retry_prepare_def)

lemma send_once_makes_send:
  "\<exists>st s' out. send_once E N a le req s = (st, s') \<and> trace s' = EvSend req out # trace s"
proof -
  obtain st s' where "send_once E N a le req s = (st, s')" by force
  with send_once_trace [OF this] show ?thesis by blast
qed

lemma retry_loop_prepare_failed:
  "0 \<le> a \<Longrightarrow> a + 1 \<le> N \<Longrightarrow> retry_prepare E (a + 1) req s1 = (Inl err, s2) \<Longrightarrow>
   retry_loop E N (a + 1) le req s1 = retry_loop E N (a + 2) (Some err) req s2"
  using retry_loop_Inl [of "a + 1" N E req s1 err s2 le] by (simp add: add.assoc)

section \<open>Properties of the credential store\<close>

text \<open>
  Claim C9. LoadToken leaves the record in memory alone unless it decodes a file: when the
  file is missing it returns no error and the record is unchanged; when the file exists but
  does not decode it returns the parse error and the record is unchanged; and whenever it
  returns an error, the record and what Manager.GetToken answers are as before, so a token
  held before a failed load is still available.
\<close>

theorem LoadToken_failure_keeps_record:
  "(fs_fault E (n_fs s) = None \<and> tokenFile s = None \<longrightarrow>
      fst (LoadToken E s) = None \<and> tokenData (snd (LoadToken E s)) = tokenData s) \<and>
   (fs_fault E (n_fs s) = None \<and> tokenFile s = Some content \<and>
    json_Unmarshal_TokenData E content = Inl e \<longrightarrow>
      fst (LoadToken E s) = Some (ParseTokenDataFailed e) \<and>
      tokenData (snd (LoadToken E s)) = tokenData s) \<and>
   (fst (LoadToken E s) \<noteq> None \<longrightarrow>
      tokenData (snd (LoadToken E s)) = tokenData s \<and>
      Manager_GetToken (snd (LoadToken E s)) = Manager_GetToken s)"
  by (auto simp: store_defs split: option.splits sum.splits)

theorem LoadToken_failure_keeps_record_witness:
  "fst (LoadToken env_plain state_T0) = None \<and>
   tokenData (snd (LoadToken env_plain state_T0)) = Some demo_token \<and>
   fst (LoadToken env_plain (state_T0\<lparr>tokenFile := Some ''garbage''\<rparr>)) =
     Some (ParseTokenDataFailed ''invalid character'') \<and>
   tokenData (snd (LoadToken env_plain (state_T0\<lparr>tokenFile := Some ''garbage''\<rparr>))) =
     Some demo_token \<and>
   Manager_GetToken (snd (LoadToken env_plain (state_T0\<lparr>tokenFile := Some ''garbage''\<rparr>))) =
     (''T0'', True)"
  using LoadToken_failure_keeps_record [of env_plain state_T0]
    LoadToken_failure_keeps_record [of env_plain "state_T0\<lparr>tokenFile := Some ''garbage''\<rparr>"
      "''garbage''" "''invalid character''"]
  by (simp add: demo_defs store_defs)

text \<open>
  Claim C10. When os.Remove fails for a reason other than the file not existing, ClearToken
  returns the error and keeps the record: Manager.GetToken and HasValidToken answer as
  before the call. When os.Remove does not fail that way (it deletes the file, or the file
  was absent) ClearToken returns no error and the record is dropped; and the record changes
  only then.
\<close>

theorem ClearToken_failure_keeps_record:
  "(fs_fault E (n_fs s) = Some e \<longrightarrow>
      fst (ClearToken E s) = Some (RemoveTokenFileFailed (OsError e)) \<and>
      tokenData (snd (ClearToken E s)) = tokenData s \<and>
      Manager_GetToken (snd (ClearToken E s)) = Manager_GetToken s \<and>
      fst (HasValidToken E (snd (ClearToken E s))) = fst (HasValidToken E s)) \<and>
   (fs_fault E (n_fs s) = None \<longrightarrow>
      fst (ClearToken E s) = None \<and> tokenData (snd (ClearToken E s)) = None) \<and>
   (tokenData (snd (ClearToken E s)) \<noteq> tokenData s \<longrightarrow>
      fst (ClearToken E s) = None \<and> fs_fault E (n_fs s) = None)"
  by (auto simp: store_defs split: option.splits sum.splits)

theorem ClearToken_failure_keeps_record_witness:
  "fst (ClearToken env_faulty state_T0) =
     Some (RemoveTokenFileFailed (OsError ''permission denied'')) \<and>
   tokenData (snd (ClearToken env_faulty state_T0)) = Some demo_token \<and>
   Manager_GetToken (snd (ClearToken env_faulty state_T0)) = (''T0'', True) \<and>
   fst (HasValidToken env_faulty (snd (ClearToken env_faulty state_T0))) \<and>
   fst (ClearToken env_plain state_T0) = None \<and>
   tokenData (snd (ClearToken env_plain state_T0)) = None"
  using ClearToken_failure_keeps_record [of env_faulty state_T0 "''permission denied''"]
    ClearToken_failure_keeps_record [of env_plain state_T0]
  by (simp add: demo_defs store_defs all_faults_def env_faulty_def)




text \<open>
  Claim C6, as the code has it. ClearToken and HasValidToken keep the invariant, and
  Manager.GetToken changes nothing and answers present only for a token that is not empty.
  SaveToken, when it returns no error, stores the token and the identity it is given, with
  expiry 24 hours after its first clock reading and the update time of its second reading;
  when it returns an error the record is unchanged; it returns no error when the record can
  be marshalled and its file system calls do not fail. So it keeps the invariant when the
  token is not empty and the second reading is less than 24 hours after the first.
  LoadToken, when the file can be read and decodes, returns no error and stores the decoded
  record whatever it is, and otherwise leaves the record unchanged. So it keeps the
  invariant when what the file decodes to satisfies it.
\<close>

theorem store_invariant_amended:
  assumes "cred_inv (tokenData s)"
  shows "cred_inv (tokenData (snd (ClearToken E s))) \<and>
         tokenData (snd (HasValidToken E s)) = tokenData s \<and>
         (snd (Manager_GetToken s) \<longrightarrow> fst (Manager_GetToken s) \<noteq> '''') \<and>
         (fst (SaveToken E token uid s) = None \<longrightarrow>
            tokenData (snd (SaveToken E token uid s)) =
              Some \<lparr>Token = token, LastLoginUID = uid,
                    ExpiresAt = clock E (n_now s) + validity,
                    UpdatedAt = clock E (Suc (n_now s))\<rparr>) \<and>
         (fst (SaveToken E token uid s) \<noteq> None \<longrightarrow>
            tokenData (snd (SaveToken E token uid s)) = tokenData s) \<and>
         ((\<exists>content. json_MarshalIndent E
              \<lparr>Token = token, LastLoginUID = uid,
               ExpiresAt = clock E (n_now s) + validity,
               UpdatedAt = clock E (Suc (n_now s))\<rparr> = Inr content) \<and>
          fs_fault E (n_fs s) = None \<and> fs_fault E (Suc (n_fs s)) = None \<longrightarrow>
            fst (SaveToken E token uid s) = None) \<and>
         (token \<noteq> '''' \<and> clock E (Suc (n_now s)) < clock E (n_now s) + validity \<longrightarrow>
            cred_inv (tokenData (snd (SaveToken E token uid s)))) \<and>
         (\<forall>content td. fs_fault E (n_fs s) = None \<and> tokenFile s = Some content \<and>
              json_Unmarshal_TokenData E content = Inr td \<longrightarrow>
            fst (LoadToken E s) = None \<and> tokenData (snd (LoadToken E s)) = Some td) \<and>
         (\<not> (\<exists>content td. fs_fault E (n_fs s) = None \<and> tokenFile s = Some content \<and>
              json_Unmarshal_TokenData E content = Inr td) \<longrightarrow>
            tokenData (snd (LoadToken E s)) = tokenData s) \<and>
         ((\<forall>content td. tokenFile s = Some content \<and>
              json_Unmarshal_TokenData E content = Inr td \<longrightarrow> cred_inv (Some td)) \<longrightarrow>
            cred_inv (tokenData (snd (LoadToken E s))))"
proof -
  let ?td = "\<lparr>Token = token, LastLoginUID = uid, ExpiresAt = clock E (n_now s) + validity,
              UpdatedAt = clock E (Suc (n_now s))\<rparr>"
  have c: "cred_inv (tokenData (snd (ClearToken E s)))"
    using assms by (auto simp: store_defs cred_inv_def split: option.splits)
  have h: "tokenData (snd (HasValidToken E s)) = tokenData s"
    by (auto simp: store_defs split: option.splits)
  have g: "snd (Manager_GetToken s) \<longrightarrow> fst (Manager_GetToken s) \<noteq> ''''"
    by (auto simp: Manager_GetToken_def split: option.splits)
  have stored: "fst (SaveToken E token uid s) = None \<longrightarrow>
      tokenData (snd (SaveToken E token uid s)) = Some ?td"
    by (auto simp: store_defs Let_def split: option.splits sum.splits)
  have kept: "fst (SaveToken E token uid s) \<noteq> None \<longrightarrow>
      tokenData (snd (SaveToken E token uid s)) = tokenData s"
    by (auto simp: store_defs Let_def split: option.splits sum.splits)
  have succeeds: "(\<exists>content. json_MarshalIndent E ?td = Inr content) \<and>
      fs_fault E (n_fs s) = None \<and> fs_fault E (Suc (n_fs s)) = None \<longrightarrow>
      fst (SaveToken E token uid s) = None"
    by (auto simp: store_defs Let_def split: option.splits sum.splits)
  have sv: "token \<noteq> '''' \<and> clock E (Suc (n_now s)) < clock E (n_now s) + validity \<longrightarrow>
      cred_inv (tokenData (snd (SaveToken E token uid s)))"
    using assms
    by (auto simp: store_defs Let_def cred_inv_def split: option.splits sum.splits)
  have installs: "\<forall>content td. fs_fault E (n_fs s) = None \<and> tokenFile s = Some content \<and>
      json_Unmarshal_TokenData E content = Inr td \<longrightarrow>
      fst (LoadToken E s) = None \<and> tokenData (snd (LoadToken E s)) = Some td"
    by (auto simp: store_defs split: option.splits sum.splits)
  have untouched: "\<not> (\<exists>content td. fs_fault E (n_fs s) = None \<and> tokenFile s = Some content \<and>
      json_Unmarshal_TokenData E content = Inr td) \<longrightarrow>
      tokenData (snd (LoadToken E s)) = tokenData s"
    by (auto simp: store_defs split: option.splits sum.splits)
  have l: "(\<forall>content td. tokenFile s = Some content \<and>
      json_Unmarshal_TokenData E content = Inr td \<longrightarrow> cred_inv (Some td)) \<longrightarrow>
      cred_inv (tokenData (snd (LoadToken E s)))"
    using assms
    by (auto simp: store_defs split: option.splits sum.splits)
  show ?thesis
    using c h g stored kept succeeds sv installs untouched l
    by (intro conjI) assumption+
qed

theorem store_invariant_amended_witness:
  "cred_inv (tokenData state_T0) \<and>
   cred_inv (tokenData (snd (ClearToken env_plain state_T0))) \<and>
   Manager_GetToken state_T0 = (''T0'', True) \<and>
   fst (SaveToken env_plain ''T1'' ''U1'' state_T0) = None \<and>
   cred_inv (tokenData (snd (SaveToken env_plain ''T1'' ''U1'' state_T0))) \<and>
   tokenData (snd (SaveToken env_plain ''T1'' ''U1'' state_T0)) =
     Some \<lparr>Token = ''T1'', LastLoginUID = ''U1'', ExpiresAt = validity, UpdatedAt = 1\<rparr> \<and>
   fst (SaveToken env_faulty ''T1'' ''U1'' state_T0) =
     Some (WriteTokenFileFailed (OsError ''permission denied'')) \<and>
   tokenData (snd (SaveToken env_faulty ''T1'' ''U1'' state_T0)) = Some demo_token \<and>
   cred_inv (tokenData (snd (LoadToken env_plain (state_T0\<lparr>tokenFile := Some ''T9''\<rparr>)))) \<and>
   tokenData (snd (LoadToken env_plain (state_T0\<lparr>tokenFile := Some ''T9''\<rparr>))) =
     Some \<lparr>Token = ''T9'', LastLoginUID = '''', ExpiresAt = validity, UpdatedAt = 0\<rparr> \<and>
   tokenData (snd (LoadToken env_plain (state_T0\<lparr>tokenFile := Some ''garbage''\<rparr>))) =
     Some demo_token"
  using store_invariant_amended [of state_T0 env_plain "''T1''" "''U1''"]
    store_invariant_amended [of state_T0 env_faulty "''T1''" "''U1''"]
    store_invariant_amended [of "state_T0\<lparr>tokenFile := Some ''T9''\<rparr>" env_plain "''T1''" "''U1''"]
    store_invariant_amended [of "state_T0\<lparr>tokenFile := Some ''garbage''\<rparr>" env_plain "''T1''"
      "''U1''"]
  by (simp add: demo_defs store_defs cred_inv_def all_faults_def env_faulty_def)

text \<open>
  Claim C6 as stated fails. The invariant is not kept by every operation: SaveToken with
  an empty token succeeds and leaves a record with an empty token, and LoadToken of a file
  that decodes to the zero record succeeds and leaves a record with an empty token that
  expires when it was issued.
\<close>

theorem store_invariant_broken:
  "cred_inv (tokenData (demo_state None None)) \<and>
   fst (SaveToken env_plain '''' ''U1'' (demo_state None None)) = None \<and>
   \<not> cred_inv (tokenData (snd (SaveToken env_plain '''' ''U1'' (demo_state None None)))) \<and>
   cred_inv (tokenData (demo_state None (Some ''{}''))) \<and>
   fst (LoadToken env_plain (demo_state None (Some ''{}''))) = None \<and>
   \<not> cred_inv (tokenData (snd (LoadToken env_plain (demo_state None (Some ''{}'')))))"
  by (simp add: demo_defs store_defs cred_inv_def)

section \<open>Properties of the credential supervisor\<close>

text \<open>
  Claim C8. When the store holds a record with a token that is not empty and the clock is
  before its expiry, EnsureValidToken returns no error and the state afterwards is the
  state before with one more clock reading: the record, the token file, the counts of file
  system, login and send calls and the trace are all unchanged, so no network or file I/O
  took place.
\<close>

theorem EnsureValidToken_valid_no_io:
  assumes "tokenData s = Some td" and "Token td \<noteq> ''''" and "clock E (n_now s) < ExpiresAt td"
  shows "EnsureValidToken E s = (None, s\<lparr>n_now := Suc (n_now s)\<rparr>)"
  using assms by (simp add: EnsureValidToken_def HasValidToken_def time_Now_def)

theorem EnsureValidToken_valid_no_io_witness:
  "tokenData state_T0 = Some demo_token \<and> Token demo_token \<noteq> '''' \<and>
   clock env_plain (n_now state_T0) < ExpiresAt demo_token \<and>
   EnsureValidToken env_plain state_T0 = (None, state_T0\<lparr>n_now := Suc (n_now state_T0)\<rparr>)"
  using EnsureValidToken_valid_no_io [of state_T0 demo_token env_plain]
  by (simp add: demo_defs)

section \<open>Properties of the delivery pipeline\<close>

text \<open>
  Claim C1. SendMessage runs the loop with maxRetries 2. When the send endpoint answers 401
  to three send requests of one SendMessage, SendMessage returns the error "message send
  failed with unauthorized status after 3 retries", and the newest event of the trace is the
  third of those requests: nothing follows the last 401, neither a refresh nor a login nor
  any other call.
\<close>

theorem SendMessage_unauthorized_exhausted:
  assumes "SendMessage E messageText s = (r, s')"
    and "send_outcomes (trace s') =
           [Resp 401 b3, Resp 401 b2, Resp 401 b1] @ send_outcomes (trace s)"
  shows "r = Some (UnauthorizedAfterRetries 3) \<and>
         (\<exists>rq tl. trace s' = EvSend rq (Resp 401 b3) # tl)"
  using SendMessage_three_sends [OF assms] by (simp add: full_run_def)

theorem SendMessage_unauthorized_exhausted_witness:
  "send_outcomes (trace (snd (SendMessage env_plain ''hello'' state_T0))) =
     [Resp 401 [], Resp 401 [], Resp 401 []] \<and>
   fst (SendMessage env_plain ''hello'' state_T0) = Some (UnauthorizedAfterRetries 3) \<and>
   take 1 (trace (snd (SendMessage env_plain ''hello'' state_T0))) =
     [EvSend \<lparr>req_url = ''https://app.mizito.ir/api/chat/send'', req_body = ''hello'',
              x_token = Some ''T2''\<rparr> (Resp 401 [])]"
  using SendMessage_unauthorized_exhausted [of env_plain "''hello''" state_T0
      "fst (SendMessage env_plain ''hello'' state_T0)"
      "snd (SendMessage env_plain ''hello'' state_T0)" "[]" "[]" "[]"]
  by (simp add: demo_defs store_defs auth_defs send_defs)

text \<open>
  Claim C2, as the code has it. The attempt a has reached its send request (request req in
  state s), retry budget remains (a < maxRetries) and the answer is 401. Then the loop goes
  on with attempt a + 1 from the state right after the send, keeping the last error, and
  that attempt begins with one RefreshToken (ClearToken, then Login):
  \<^item> when the refresh fails, or it succeeds and AuthService.GetToken fails, the attempt makes
    no send request and the loop goes on with attempt a + 2;
  \<^item> when the refresh succeeds and AuthService.GetToken returns a token, exactly one refresh
    and no send request lie between the 401 and the state in which attempt a + 1 sends, the
    refresh made one login request whose answer (status 200, body status 1) issued a
    token, the token put into the request is the one the store holds, it is the issued one
    when the store reports it valid, and the next event is the send request carrying it.

  And for SendMessage: when its three send requests are answered 401, 401 and 200 with a
  body that decodes to true, it returns no error and exactly two refreshes happened.
\<close>

theorem refresh_after_unauthorized:
  assumes "0 \<le> a" and "a < N"
    and "retry_prepare E a req0 s0 = (Inr req, s)"
    and "client_Do_send E req s = (Resp 401 b, s1)"
  shows
   "retry_loop E N a le req0 s0 = retry_loop E N (a + 1) le req s1 \<and>
    (\<forall>err s2. RefreshToken E s1 = (Some err, s2) \<longrightarrow>
        refreshes (trace s2) = Suc (refreshes (trace s1)) \<and>
        send_outcomes (trace s2) = send_outcomes (trace s1) \<and>
        retry_loop E N (a + 1) le req s1 =
          retry_loop E N (a + 2) (Some (RefreshOnRetryFailed err)) req s2) \<and>
    (\<forall>s2 err s3. RefreshToken E s1 = (None, s2) \<and>
        AuthService_GetToken E s2 = (Inl err, s3) \<longrightarrow>
        send_outcomes (trace s3) = send_outcomes (trace s1) \<and>
        retry_loop E N (a + 1) le req s1 =
          retry_loop E N (a + 2) (Some (GetRefreshedTokenFailed err)) req s3) \<and>
    (\<forall>s2 tok s3. RefreshToken E s1 = (None, s2) \<and>
        AuthService_GetToken E s2 = (Inr tok, s3) \<longrightarrow>
        refreshes (trace s3) = Suc (refreshes (trace s1)) \<and>
        send_outcomes (trace s3) = send_outcomes (trace s1) \<and>
        Manager_GetToken s3 = (tok, True) \<and>
        (\<exists>rq body lr. login_reply E (n_login s1) rq = Resp 200 body \<and>
            json_Unmarshal_LoginResponse E body = Inr lr \<and> lr_Status lr = 1 \<and>
            n_login s2 = Suc (n_login s1) \<and>
            (fst (HasValidToken E s2) \<longrightarrow> tok = lr_Token lr \<and> n_login s3 = n_login s2)) \<and>
        retry_prepare E (a + 1) req s1 = (Inr (req\<lparr>x_token := Some tok\<rparr>), s3) \<and>
        (\<exists>st s4 out. send_once E N (a + 1) le (req\<lparr>x_token := Some tok\<rparr>) s3 = (st, s4) \<and>
            trace s4 = EvSend (req\<lparr>x_token := Some tok\<rparr>) out # trace s3)) \<and>
    (\<forall>msg t0 r t1 body b2 b1.
        SendMessage E msg t0 = (r, t1) \<and>
        send_outcomes (trace t1) =
          [Resp 200 body, Resp 401 b2, Resp 401 b1] @ send_outcomes (trace t0) \<and>
        json_Unmarshal_BoolResponse E body = Inr True \<longrightarrow>
        r = None \<and> refreshes (trace t1) = refreshes (trace t0) + 2)"
proof -
  from assms(2,4) have once: "send_once E N a le req s = (Continue le, s1)"
    by (simp add: send_once_def)
  from assms(2) have aN: "a \<le> N" "a + 1 \<le> N" by simp_all
  have step: "retry_loop E N a le req0 s0 = retry_loop E N (a + 1) le req s1"
    by (rule retry_loop_Continue [OF aN(1) assms(3) once])
  have failed: "refreshes (trace s2) = Suc (refreshes (trace s1)) \<and>
        send_outcomes (trace s2) = send_outcomes (trace s1) \<and>
        retry_loop E N (a + 1) le req s1 =
          retry_loop E N (a + 2) (Some (RefreshOnRetryFailed err)) req s2"
    if r: "RefreshToken E s1 = (Some err, s2)" for err s2
  proof -
    from r assms(1) have "retry_prepare E (a + 1) req s1 = (Inl (RefreshOnRetryFailed err), s2)"
      by (simp add: retry_prepare_retry)
    from retry_loop_prepare_failed [OF assms(1) aN(2) this] RefreshToken_effect [OF r]
    show ?thesis by simp
  qed
  have lookup: "send_outcomes (trace s3) = send_outcomes (trace s1) \<and>
        retry_loop E N (a + 1) le req s1 =
          retry_loop E N (a + 2) (Some (GetRefreshedTokenFailed err)) req s3"
    if r: "RefreshToken E s1 = (None, s2)" and g: "AuthService_GetToken E s2 = (Inl err, s3)"
    for s2 err s3
  proof -
    from r g assms(1)
    have "retry_prepare E (a + 1) req s1 = (Inl (GetRefreshedTokenFailed err), s3)"
      by (simp add: retry_prepare_retry)
    from retry_loop_prepare_failed [OF assms(1) aN(2) this]
      RefreshToken_effect [OF r] GetToken_quiet [OF g]
    show ?thesis by (simp add: quiet_def)
  qed
  have renewed: "refreshes (trace s3) = Suc (refreshes (trace s1)) \<and>
        send_outcomes (trace s3) = send_outcomes (trace s1) \<and>
        Manager_GetToken s3 = (tok, True) \<and>
        (\<exists>rq body lr. login_reply E (n_login s1) rq = Resp 200 body \<and>
            json_Unmarshal_LoginResponse E body = Inr lr \<and> lr_Status lr = 1 \<and>
            n_login s2 = Suc (n_login s1) \<and>
            (fst (HasValidToken E s2) \<longrightarrow> tok = lr_Token lr \<and> n_login s3 = n_login s2)) \<and>
        retry_prepare E (a + 1) req s1 = (Inr (req\<lparr>x_token := Some tok\<rparr>), s3) \<and>
        (\<exists>st s4 out. send_once E N (a + 1) le (req\<lparr>x_token := Some tok\<rparr>) s3 = (st, s4) \<and>
            trace s4 = EvSend (req\<lparr>x_token := Some tok\<rparr>) out # trace s3)"
    if r: "RefreshToken E s1 = (None, s2)" and g: "AuthService_GetToken E s2 = (Inr tok, s3)"
    for s2 tok s3
  proof -
    from r g assms(1)
    have prep: "retry_prepare E (a + 1) req s1 = (Inr (req\<lparr>x_token := Some tok\<rparr>), s3)"
      by (simp add: retry_prepare_retry)
    from RefreshToken_effect [OF r] GetToken_quiet [OF g]
    have tr: "refreshes (trace s3) = Suc (refreshes (trace s1))"
      "send_outcomes (trace s3) = send_outcomes (trace s1)"
      by (simp_all add: quiet_def)
    from RefreshToken_success [OF r] obtain rq body lr td
      where lr: "login_reply E (n_login s1) rq = Resp 200 body"
        "json_Unmarshal_LoginResponse E body = Inr lr" "lr_Status lr = 1"
        "n_login s2 = Suc (n_login s1)"
        and td: "tokenData s2 = Some td" "Token td = lr_Token lr"
      by blast
    have "tok = lr_Token lr \<and> n_login s3 = n_login s2" if "fst (HasValidToken E s2)"
      using GetToken_valid [OF td(1) that] g td(2) by simp
    with lr have issued: "\<exists>rq body lr. login_reply E (n_login s1) rq = Resp 200 body \<and>
            json_Unmarshal_LoginResponse E body = Inr lr \<and> lr_Status lr = 1 \<and>
            n_login s2 = Suc (n_login s1) \<and>
            (fst (HasValidToken E s2) \<longrightarrow> tok = lr_Token lr \<and> n_login s3 = n_login s2)"
      by blast
    from prep tr GetToken_holds [OF g] issued send_once_makes_send show ?thesis by blast
  qed
  have scenario: "r = None \<and> refreshes (trace t1) = refreshes (trace t0) + 2"
    if "SendMessage E msg t0 = (r, t1)"
      and "send_outcomes (trace t1) =
          [Resp 200 body, Resp 401 b2, Resp 401 b1] @ send_outcomes (trace t0)"
      and "json_Unmarshal_BoolResponse E body = Inr True"
    for msg t0 r t1 body b2 b1
    using SendMessage_three_sends [OF that(1,2)] that(3)
    by (simp add: full_run_def check_body_def)
  from step failed lookup renewed scenario show ?thesis by blast
qed

theorem refresh_after_unauthorized_witness:
  "retry_prepare env_recover 0 demo_request state_T0 = (Inr demo_request, state_T0) \<and>
   fst (client_Do_send env_recover demo_request state_T0) = Resp 401 [] \<and>
   fst (RefreshToken env_recover (snd (client_Do_send env_recover demo_request state_T0))) = None \<and>
   fst (retry_prepare env_recover 1 demo_request
          (snd (client_Do_send env_recover demo_request state_T0))) =
     Inr (demo_request\<lparr>x_token := Some ''T1''\<rparr>) \<and>
   refreshes (trace (snd (retry_prepare env_recover 1 demo_request
          (snd (client_Do_send env_recover demo_request state_T0))))) = 1 \<and>
   send_outcomes (trace (snd (SendMessage env_recover ''hello'' state_T0))) =
     [Resp 200 ''true'', Resp 401 [], Resp 401 []] \<and>
   fst (SendMessage env_recover ''hello'' state_T0) = None \<and>
   refreshes (trace (snd (SendMessage env_recover ''hello'' state_T0))) = 2 \<and>
   fst (RefreshToken env_refused (snd (client_Do_send env_refused demo_request state_T0))) =
     Some (LoginRequestFailed ''connection refused'') \<and>
   refreshes (trace (snd (RefreshToken env_refused
      (snd (client_Do_send env_refused demo_request state_T0))))) = 1"
proof -
  let ?u1 = "snd (client_Do_send env_refused demo_request state_T0)"
  let ?u2 = "snd (RefreshToken env_refused ?u1)"
  have p2: "retry_prepare env_refused 0 demo_request state_T0 = (Inr demo_request, state_T0)"
    by (simp add: retry_prepare_def)
  have d2: "client_Do_send env_refused demo_request state_T0 = (Resp 401 [], ?u1)"
    by (simp add: all_defs env_recover_def env_refused_def sends_recover_def
        login_refused_once_def demo_request_def)
  have r2: "RefreshToken env_refused ?u1 =
      (Some (LoginRequestFailed ''connection refused''), ?u2)"
    by (simp add: all_defs env_recover_def env_refused_def sends_recover_def
        login_refused_once_def demo_request_def)
  have r2': "fst (RefreshToken env_refused ?u1) = Some (LoginRequestFailed ''connection refused'')"
    by (simp add: all_defs env_recover_def env_refused_def sends_recover_def
        login_refused_once_def demo_request_def)
  have u0: "refreshes (trace ?u1) = 0"
    by (simp add: all_defs env_recover_def env_refused_def sends_recover_def
        login_refused_once_def demo_request_def)
  let ?s1 = "snd (client_Do_send env_recover demo_request state_T0)"
  let ?s2 = "snd (RefreshToken env_recover ?s1)"
  let ?s3 = "snd (AuthService_GetToken env_recover ?s2)"
  let ?t1 = "snd (SendMessage env_recover ''hello'' state_T0)"
  have p: "retry_prepare env_recover 0 demo_request state_T0 = (Inr demo_request, state_T0)"
    by (simp add: retry_prepare_def)
  have d: "client_Do_send env_recover demo_request state_T0 = (Resp 401 [], ?s1)"
    by (simp add: all_defs env_recover_def env_refused_def sends_recover_def
        login_refused_once_def demo_request_def)
  have r: "RefreshToken env_recover ?s1 = (None, ?s2)"
    by (simp add: all_defs env_recover_def env_refused_def sends_recover_def
        login_refused_once_def demo_request_def)
  have g: "AuthService_GetToken env_recover ?s2 = (Inr ''T1'', ?s3)"
    by (simp add: all_defs env_recover_def env_refused_def sends_recover_def
        login_refused_once_def demo_request_def)
  have t0: "refreshes (trace ?s1) = 0" "refreshes (trace state_T0) = 0"
    "send_outcomes (trace state_T0) = []"
    by (simp_all add: all_defs env_recover_def sends_recover_def demo_request_def)
  have run: "SendMessage env_recover ''hello'' state_T0 =
      (fst (SendMessage env_recover ''hello'' state_T0), ?t1)"
    by simp
  have sends: "send_outcomes (trace ?t1) =
      [Resp 200 ''true'', Resp 401 [], Resp 401 []] @ send_outcomes (trace state_T0)"
    by (simp add: all_defs env_recover_def env_refused_def sends_recover_def
        login_refused_once_def demo_request_def)
  have b: "json_Unmarshal_BoolResponse env_recover ''true'' = Inr True"
    by (simp add: all_defs env_recover_def env_refused_def sends_recover_def
        login_refused_once_def demo_request_def)
  have z: "(0::int) \<le> 0" "(0::int) < 2" by simp_all
  note T = refresh_after_unauthorized [OF z p d, of None]
  note renewed = T [THEN conjunct2, THEN conjunct2, THEN conjunct2, THEN conjunct1,
      rule_format, OF conjI [OF r g]]
  note scenario = T [THEN conjunct2, THEN conjunct2, THEN conjunct2, THEN conjunct2,
      rule_format, OF conjI [OF run conjI [OF sends b]]]
  from renewed have next_attempt:
    "retry_prepare env_recover (0 + 1) demo_request ?s1 =
       (Inr (demo_request\<lparr>x_token := Some ''T1''\<rparr>), ?s3)"
    "refreshes (trace ?s3) = Suc (refreshes (trace ?s1))"
    by blast+
  have r': "fst (RefreshToken env_recover ?s1) = None"
    by (simp add: all_defs env_recover_def env_refused_def sends_recover_def
        login_refused_once_def demo_request_def)
  have d': "fst (client_Do_send env_recover demo_request state_T0) = Resp 401 []"
    by (simp add: all_defs env_recover_def env_refused_def sends_recover_def
        login_refused_once_def demo_request_def)
  note T2 = refresh_after_unauthorized [OF z p2 d2, of None]
  note failed = T2 [THEN conjunct2, THEN conjunct1, rule_format, OF r2]
  from failed u0 have again: "refreshes (trace ?u2) = 1" by simp
  from p d' r' next_attempt scenario sends t0 r2' again show ?thesis by simp
qed

text \<open>
  Claim C2 as stated fails when a refresh fails. Here the first send request is answered
  401, the login of the first refresh cannot connect, so the second attempt sends nothing,
  and the third attempt refreshes again before it sends. Two refreshes lie between the 401
  and the next send request.
\<close>

theorem refresh_twice_before_next_send:
  "fst (SendMessage env_refused ''hello'' state_T0) = None \<and>
   trace (snd (SendMessage env_refused ''hello'' state_T0)) =
     [EvSend (demo_request\<lparr>x_token := Some ''T2''\<rparr>) (Resp 200 ''true''),
      EvWriteFile ''T2'',
      EvLogin login_request (Resp 200 ''T2''),
      EvRemove,
      EvLogin login_request (DoErr ''connection refused''),
      EvRemove,
      EvSend demo_request (Resp 401 [])]"
  by (simp add: all_defs env_refused_def sends_recover_def login_refused_once_def
      demo_request_def login_request_def)




text \<open>
  Claim C4. Whenever a send request of a SendMessage is answered with status 200, that
  request is the newest event of the trace when SendMessage returns (no refresh and no
  further attempt follow it), and its body decides what SendMessage returns: no error when
  the body decodes as the boolean true, or does not decode as a boolean and decodes as a
  MessageResponse with status 1; the error "message send failed with status" when it
  decodes as a MessageResponse with another status; the error "unexpected response format"
  when it decodes as neither. Such runs exist in every environment: when the supervisor
  gives a token, the payload and the request are built and the first send request is
  answered 200, SendMessage ends in the state right after that request, which is the only
  send request it made.
\<close>

theorem SendMessage_ok_response_body:
  "(SendMessage E messageText s = (r, s') \<and>
    send_outcomes (trace s') = ss @ send_outcomes (trace s) \<and> Resp 200 body \<in> set ss \<longrightarrow>
      (\<exists>rq tl. trace s' = EvSend rq (Resp 200 body) # tl) \<and>
      (json_Unmarshal_BoolResponse E body = Inr True \<longrightarrow> r = None) \<and>
      (\<forall>e m. json_Unmarshal_BoolResponse E body = Inl e \<and>
             json_Unmarshal_MessageResponse E body = Inr m \<and> mr_Status m = 1 \<longrightarrow>
         r = None) \<and>
      (\<forall>e m. json_Unmarshal_BoolResponse E body = Inl e \<and>
             json_Unmarshal_MessageResponse E body = Inr m \<and> mr_Status m \<noteq> 1 \<longrightarrow>
         r = Some (SendFailedStatus (mr_Status m) (mr_Message m))) \<and>
      (\<forall>e e'. json_Unmarshal_BoolResponse E body = Inl e \<and>
             json_Unmarshal_MessageResponse E body = Inl e' \<longrightarrow>
         r = Some UnexpectedResponseFormat)) \<and>
   (AuthService_GetToken E s = (Inr token, s1) \<and> time_Now E s1 = (now, s2) \<and>
    message_json E messageText now = Inr jsonData \<and>
    http_NewRequest E (MizitoChatAPIURL (config E)) = None \<and>
    client_Do_send E
      \<lparr>req_url = MizitoChatAPIURL (config E), req_body = jsonData, x_token = Some token\<rparr> s2 =
      (Resp 200 body0, s3) \<longrightarrow>
      snd (SendMessage E messageText s) = s3 \<and>
      send_outcomes (trace s3) = [Resp 200 body0] @ send_outcomes (trace s))"
proof -
  have any: "(\<exists>rq tl. trace s' = EvSend rq (Resp 200 body) # tl) \<and>
      (json_Unmarshal_BoolResponse E body = Inr True \<longrightarrow> r = None) \<and>
      (\<forall>e m. json_Unmarshal_BoolResponse E body = Inl e \<and>
             json_Unmarshal_MessageResponse E body = Inr m \<and> mr_Status m = 1 \<longrightarrow>
         r = None) \<and>
      (\<forall>e m. json_Unmarshal_BoolResponse E body = Inl e \<and>
             json_Unmarshal_MessageResponse E body = Inr m \<and> mr_Status m \<noteq> 1 \<longrightarrow>
         r = Some (SendFailedStatus (mr_Status m) (mr_Message m))) \<and>
      (\<forall>e e'. json_Unmarshal_BoolResponse E body = Inl e \<and>
             json_Unmarshal_MessageResponse E body = Inl e' \<longrightarrow>
         r = Some UnexpectedResponseFormat)"
    if "SendMessage E messageText s = (r, s')"
      and "send_outcomes (trace s') = ss @ send_outcomes (trace s)"
      and "Resp 200 body \<in> set ss"
    using SendMessage_ok_answer [OF that] by (simp add: check_body_def)
  have first: "snd (SendMessage E messageText s) = s3 \<and>
      send_outcomes (trace s3) = [Resp 200 body0] @ send_outcomes (trace s)"
    if "AuthService_GetToken E s = (Inr token, s1)" and "time_Now E s1 = (now, s2)"
      and "message_json E messageText now = Inr jsonData"
      and "http_NewRequest E (MizitoChatAPIURL (config E)) = None"
      and "client_Do_send E
        \<lparr>req_url = MizitoChatAPIURL (config E), req_body = jsonData, x_token = Some token\<rparr> s2 =
        (Resp 200 body0, s3)"
    using SendMessage_first_answer [OF that] by simp
  from any first show ?thesis by blast
qed

theorem SendMessage_ok_response_body_witness:
  "send_outcomes (trace (snd (SendMessage (env_body ''true'') ''hello'' state_T0))) =
     [Resp 200 ''true''] \<and>
   fst (SendMessage (env_body ''true'') ''hello'' state_T0) = None \<and>
   send_outcomes (trace (snd (SendMessage (env_body ''{status:1}'') ''hello'' state_T0))) =
     [Resp 200 ''{status:1}''] \<and>
   fst (SendMessage (env_body ''{status:1}'') ''hello'' state_T0) = None \<and>
   send_outcomes (trace (snd (SendMessage (env_body ''{status:0}'') ''hello'' state_T0))) =
     [Resp 200 ''{status:0}''] \<and>
   fst (SendMessage (env_body ''{status:0}'') ''hello'' state_T0) =
     Some (SendFailedStatus 0 '''') \<and>
   send_outcomes (trace (snd (SendMessage (env_body ''<html>'') ''hello'' state_T0))) =
     [Resp 200 ''<html>''] \<and>
   fst (SendMessage (env_body ''<html>'') ''hello'' state_T0) =
     Some UnexpectedResponseFormat \<and>
   take 1 (trace (snd (SendMessage (env_body ''{status:0}'') ''hello'' state_T0))) =
     [EvSend demo_request (Resp 200 ''{status:0}'')] \<and>
   snd (SendMessage (env_body ''true'') ''hello'' state_T0) =
     snd (client_Do_send (env_body ''true'') demo_request (state_T0\<lparr>n_now := 2\<rparr>))"
proof -
  let ?E = "env_body ''true''"
  let ?req = "\<lparr>req_url = MizitoChatAPIURL (config ?E), req_body = ''hello'',
               x_token = Some ''T0''\<rparr>"
  have g: "AuthService_GetToken ?E state_T0 = (Inr ''T0'', state_T0\<lparr>n_now := 1\<rparr>)"
    by (simp add: all_defs env_body_def)
  have n: "time_Now ?E (state_T0\<lparr>n_now := 1\<rparr>) = (1, state_T0\<lparr>n_now := 2\<rparr>)"
    by (simp add: all_defs env_body_def)
  have j: "message_json ?E ''hello'' 1 = Inr ''hello''"
    by (simp add: all_defs env_body_def)
  have u: "http_NewRequest ?E (MizitoChatAPIURL (config ?E)) = None"
    by (simp add: all_defs env_body_def)
  have rq: "?req = demo_request"
    by (simp add: all_defs env_body_def demo_request_def)
  have d: "client_Do_send ?E ?req (state_T0\<lparr>n_now := 2\<rparr>) =
      (Resp 200 ''true'', snd (client_Do_send ?E demo_request (state_T0\<lparr>n_now := 2\<rparr>)))"
    by (simp add: all_defs env_body_def sends_body_def demo_request_def)
  note F = SendMessage_ok_response_body [THEN conjunct2, rule_format,
      OF conjI [OF g conjI [OF n conjI [OF j conjI [OF u d]]]]]
  from F have first: "snd (SendMessage ?E ''hello'' state_T0) =
      snd (client_Do_send ?E demo_request (state_T0\<lparr>n_now := 2\<rparr>))"
    by blast
  have run: "SendMessage (env_body b) ''hello'' state_T0 =
      (fst (SendMessage (env_body b) ''hello'' state_T0),
       snd (SendMessage (env_body b) ''hello'' state_T0))" for b
    by simp
  have sends: "send_outcomes (trace (snd (SendMessage (env_body b) ''hello'' state_T0))) =
      [Resp 200 b] @ send_outcomes (trace state_T0)" for b
    by (simp add: all_defs env_body_def sends_body_def)
  have mem: "Resp 200 b \<in> set [Resp 200 b]" for b :: bytes
    by simp
  note T = SendMessage_ok_response_body [THEN conjunct1, rule_format,
      OF conjI [OF run conjI [OF sends mem]]]
  have dec:
    "json_Unmarshal_BoolResponse (env_body ''true'') ''true'' = Inr True"
    "json_Unmarshal_BoolResponse (env_body ''{status:1}'') ''{status:1}'' =
       Inl ''cannot unmarshal into bool'' \<and>
     json_Unmarshal_MessageResponse (env_body ''{status:1}'') ''{status:1}'' =
       Inr \<lparr>mr_Status = 1, mr_Message = ''''\<rparr> \<and>
     mr_Status \<lparr>mr_Status = 1, mr_Message = ''''\<rparr> = 1"
    "json_Unmarshal_BoolResponse (env_body ''{status:0}'') ''{status:0}'' =
       Inl ''cannot unmarshal into bool'' \<and>
     json_Unmarshal_MessageResponse (env_body ''{status:0}'') ''{status:0}'' =
       Inr \<lparr>mr_Status = 0, mr_Message = ''''\<rparr> \<and>
     mr_Status \<lparr>mr_Status = 0, mr_Message = ''''\<rparr> \<noteq> 1"
    "json_Unmarshal_BoolResponse (env_body ''<html>'') ''<html>'' =
       Inl ''cannot unmarshal into bool'' \<and>
     json_Unmarshal_MessageResponse (env_body ''<html>'') ''<html>'' =
       Inl ''cannot unmarshal into MessageResponse''"
    by (simp_all add: env_body_def demo_env_def)
  have r1: "fst (SendMessage (env_body ''true'') ''hello'' state_T0) = None"
    using T [of "''true''", THEN conjunct2, THEN conjunct1] dec(1) by blast
  have r2: "fst (SendMessage (env_body ''{status:1}'') ''hello'' state_T0) = None"
    using T [of "''{status:1}''", THEN conjunct2, THEN conjunct2, THEN conjunct1, rule_format,
        OF dec(2)] .
  have r3: "fst (SendMessage (env_body ''{status:0}'') ''hello'' state_T0) =
      Some (SendFailedStatus 0 '''')"
    using T [of "''{status:0}''", THEN conjunct2, THEN conjunct2, THEN conjunct2, THEN conjunct1,
        rule_format, OF dec(3)] by simp
  have r4: "fst (SendMessage (env_body ''<html>'') ''hello'' state_T0) =
      Some UnexpectedResponseFormat"
    using T [of "''<html>''", THEN conjunct2, THEN conjunct2, THEN conjunct2, THEN conjunct2,
        rule_format, OF dec(4)] .
  have newest: "take 1 (trace (snd (SendMessage (env_body ''{status:0}'') ''hello'' state_T0))) =
     [EvSend demo_request (Resp 200 ''{status:0}'')]"
    by (simp add: all_defs env_body_def sends_body_def demo_request_def)
  have empty: "send_outcomes (trace state_T0) = []"
    by (simp add: demo_defs)
  from sends [of "''true''"] sends [of "''{status:1}''"] sends [of "''{status:0}''"]
    sends [of "''<html>''"] r1 r2 r3 r4 newest empty first
  show ?thesis by simp
qed

end
